theory Spec2Isabelle
  imports Main
begin

section \<open>lambda/handler.go: values, errors and the adapter's state\<close>

text \<open>
  A payload is a Go byte slice. The error interface is a datatype: \<open>errorString\<close> is what
  \<open>errors.New\<close> builds, \<open>otherError\<close> stands for every other implementation (the errors of
  the JSON decoder and encoder, and whatever a user function returns).
\<close>

type_synonym bytes = string

datatype 'x error = errorString string | otherError 'x

definition errors_New :: "string \<Rightarrow> 'x error" where
  "errors_New msg = errorString msg"

text \<open>A Go call either returns its results or panics.\<close>

datatype 'a outcome = Returns 'a | Panics string

text \<open>
  What a \<open>handlerFunc\<close> returns as its \<open>io.Reader\<close>: the adapter's own \<open>*jsonOutBuffer\<close>,
  a \<open>*bytes.Buffer\<close> with its unread bytes, or any other reader, given by the bytes
  \<open>ioutil.ReadAll\<close> gets from it, the error the read ends with (if any) and whether the
  reader is an \<open>io.Closer\<close>.
\<close>

datatype 'x reader = jsonOutBuffer | bytes_Buffer bytes | io_Reader bytes "'x error option" bool

text \<open>
  The calls an invocation makes to code outside the adapter, in the order it makes them:
  the two optional trace callbacks, the user function, the encoder (with the three settings
  it was given) and \<open>Close\<close> on a response that is an \<open>io.Closer\<close>.
\<close>

datatype ('c, 'i, 'o) call =
    RequestEventCall 'c 'i
  | UserCall 'c 'i
  | ResponseEventCall 'c 'o
  | EncodeCall bool string string 'o
  | CloseCall

text \<open>
  The state an adapter carries from one invocation to the next: the contents of \<open>out\<close>, the
  \<open>jsonOutBuffer\<close> allocated once at line 164, and the calls made so far.
\<close>

record ('c, 'i, 'o) adapter =
  out :: bytes
  calls :: "('c, 'i, 'o) call list"

definition observe :: "('c, 'i, 'o) call \<Rightarrow> ('c, 'i, 'o) adapter \<Rightarrow> ('c, 'i, 'o) adapter" where
  "observe c st = st\<lparr>calls := calls st @ [c]\<rparr>"

text \<open>\<open>bytes.Buffer.Truncate\<close> panics when \<open>n\<close> is negative or beyond the length.\<close>

definition Truncate :: "bytes \<Rightarrow> int \<Rightarrow> bytes option" where
  "Truncate b n = (if n < 0 \<or> n > int (length b) then None else Some (take (nat n) b))"

type_synonym ('c, 'i, 'o, 'x) handlerFunc =
  "'c \<Rightarrow> bytes \<Rightarrow> ('c, 'i, 'o) adapter \<Rightarrow>
     ('x reader option \<times> 'x error option) outcome \<times> ('c, 'i, 'o) adapter"

section \<open>What handler.go calls into\<close>

text \<open>
  \<open>handlertrace.FromContext\<close> gives the two optional callbacks registered on a context.
  \<open>RequestEvent\<close> is handed the pointer \<open>event\<close> (line 180), so the model lets it return
  what it leaves in \<open>*event\<close>; \<open>ResponseEvent\<close> is handed the response by value.
\<close>

record ('c, 'i, 'o) HandlerTrace =
  RequestEvent :: "('c \<Rightarrow> 'i \<Rightarrow> 'i) option"
  ResponseEvent :: "('c \<Rightarrow> 'o \<Rightarrow> unit) option"

text \<open>
  The packages the adapter is written against are parameters of the model:
  \<open>context.Background()\<close>; \<open>handlertrace.FromContext\<close>;
  \<open>json.NewDecoder(bytes.NewBuffer(payload)).Decode(event)\<close> on a fresh zero \<open>event\<close>, giving
  the error or the value left in \<open>*event\<close>; and \<open>Encode\<close> of an encoder set up with
  \<open>SetEscapeHTML\<close> and \<open>SetIndent\<close>, giving the bytes it wrote and the error it returned.
\<close>

record ('c, 'i, 'o, 'x) packages =
  context_Background :: 'c
  handlertrace_FromContext :: "'c \<Rightarrow> ('c, 'i, 'o) HandlerTrace"
  json_Decode :: "bytes \<Rightarrow> 'x error + 'i"
  json_Encode :: "bool \<Rightarrow> string \<Rightarrow> string \<Rightarrow> 'o \<Rightarrow> bytes \<times> 'x error option"

section \<open>handlerOptions and the option constructors\<close>

record ('c, 'i, 'o, 'x, 'cb) handlerOptions =
  handlerFunc :: "('c, 'i, 'o, 'x) handlerFunc option"
  baseContext :: 'c
  jsonResponseEscapeHTML :: bool
  jsonResponseIndentPrefix :: string
  jsonResponseIndentValue :: string
  enableSIGTERM :: bool
  sigtermCallbacks :: "'cb list"

type_synonym ('c, 'i, 'o, 'x, 'cb) Option =
  "('c, 'i, 'o, 'x, 'cb) handlerOptions \<Rightarrow> ('c, 'i, 'o, 'x, 'cb) handlerOptions"

definition WithContext :: "'c \<Rightarrow> ('c, 'i, 'o, 'x, 'cb) Option" where
  "WithContext ctx = (\<lambda>h. h\<lparr>baseContext := ctx\<rparr>)"

definition WithSetEscapeHTML :: "bool \<Rightarrow> ('c, 'i, 'o, 'x, 'cb) Option" where
  "WithSetEscapeHTML escapeHTML = (\<lambda>h. h\<lparr>jsonResponseEscapeHTML := escapeHTML\<rparr>)"

definition WithSetIndent :: "string \<Rightarrow> string \<Rightarrow> ('c, 'i, 'o, 'x, 'cb) Option" where
  "WithSetIndent prefix indent =
     (\<lambda>h. h\<lparr>jsonResponseIndentPrefix := prefix, jsonResponseIndentValue := indent\<rparr>)"

definition WithEnableSIGTERM :: "'cb list \<Rightarrow> ('c, 'i, 'o, 'x, 'cb) Option" where
  "WithEnableSIGTERM callbacks =
     (\<lambda>h. h\<lparr>sigtermCallbacks := sigtermCallbacks h @ callbacks, enableSIGTERM := True\<rparr>)"

section \<open>errorHandler, reflectHandler and Invoke\<close>

definition errorHandler :: "'x error \<Rightarrow> ('c, 'i, 'o, 'x) handlerFunc" where
  "errorHandler err = (\<lambda>_ _ st. (Returns (None, Some err), st))"

text \<open>
  Lines 179 to 181 and 188 to 190: a trace callback runs only if it is registered. The
  request trace gives the event as the callback left it.
\<close>

definition request_trace ::
  "('c, 'i, 'o) HandlerTrace \<Rightarrow> 'c \<Rightarrow> 'i \<Rightarrow> ('c, 'i, 'o) adapter \<Rightarrow> 'i \<times> ('c, 'i, 'o) adapter" where
  "request_trace trace ctx event st =
     (case RequestEvent trace of
        None \<Rightarrow> (event, st)
      | Some cb \<Rightarrow> (cb ctx event, observe (RequestEventCall ctx event) st))"

definition response_trace ::
  "('c, 'i, 'o) HandlerTrace \<Rightarrow> 'c \<Rightarrow> 'o \<Rightarrow> ('c, 'i, 'o) adapter \<Rightarrow> ('c, 'i, 'o) adapter" where
  "response_trace trace ctx response st =
     (case ResponseEvent trace of
        None \<Rightarrow> st
      | Some cb \<Rightarrow> observe (ResponseEventCall ctx response) st)"

text \<open>
  The user function is \<open>None\<close> for a nil reference. The closure of lines 165 to 202, step
  by step: reset \<open>out\<close>; decode; the request trace; the call \<open>f(ctx, *event)\<close>; the response
  trace; encode into \<open>out\<close>; strip the last byte unless \<open>WithSetIndent\<close> was used.
\<close>

definition reflectHandler ::
  "('c, 'i, 'o, 'x) packages \<Rightarrow> ('c \<Rightarrow> 'i \<Rightarrow> 'o \<times> 'x error option) option \<Rightarrow>
   ('c, 'i, 'o, 'x, 'cb) handlerOptions \<Rightarrow> ('c, 'i, 'o, 'x) handlerFunc" where
  "reflectHandler L f h =
     (case f of
        None \<Rightarrow> errorHandler (errors_New ''handler is nil'')
      | Some f \<Rightarrow> (\<lambda>ctx payload st0.
          let st1 = st0\<lparr>out := []\<rparr>;
              trace = handlertrace_FromContext L ctx
          in case json_Decode L payload of
               Inl err \<Rightarrow> (Returns (None, Some err), st1)
             | Inr event0 \<Rightarrow>
                 let (event, st2) = request_trace trace ctx event0 st1;
                     (response, err) = f ctx event;
                     st3 = observe (UserCall ctx event) st2
                 in case err of
                      Some e \<Rightarrow> (Returns (None, Some e), st3)
                    | None \<Rightarrow>
                        let st4 = response_trace trace ctx response st3;
                            (written, err) =
                               json_Encode L (jsonResponseEscapeHTML h)
                                 (jsonResponseIndentPrefix h) (jsonResponseIndentValue h) response;
                            st5 = observe (EncodeCall (jsonResponseEscapeHTML h)
                                     (jsonResponseIndentPrefix h) (jsonResponseIndentValue h) response)
                                    (st4\<lparr>out := out st4 @ written\<rparr>)
                        in case err of
                             Some e \<Rightarrow> (Returns (None, Some e), st5)
                           | None \<Rightarrow>
                               if jsonResponseIndentValue h = [] \<and> jsonResponseIndentPrefix h = []
                               then (case Truncate (out st5) (int (length (out st5)) - 1) of
                                       None \<Rightarrow> (Panics ''bytes.Buffer: truncation out of range'', st5)
                                     | Some b \<Rightarrow> (Returns (Some jsonOutBuffer, None), st5\<lparr>out := b\<rparr>))
                               else (Returns (Some jsonOutBuffer, None), st5)))"

text \<open>
  \<open>handlerFunc.Invoke\<close>: an error first; then the bytes of the response. A nil reader
  with a nil error reaches \<open>ioutil.ReadAll(nil)\<close>, which panics.
\<close>

definition Invoke ::
  "('c, 'i, 'o, 'x) handlerFunc \<Rightarrow> 'c \<Rightarrow> bytes \<Rightarrow> ('c, 'i, 'o) adapter \<Rightarrow>
     (bytes option \<times> 'x error option) outcome \<times> ('c, 'i, 'o) adapter" where
  "Invoke hf ctx payload st =
     (case hf ctx payload st of
        (Panics msg, st') \<Rightarrow> (Panics msg, st')
      | (Returns (response, err), st') \<Rightarrow>
          (case err of
             Some e \<Rightarrow> (Returns (None, Some e), st')
           | None \<Rightarrow>
               (case response of
                  None \<Rightarrow> (Panics ''invalid memory address or nil pointer dereference'', st')
                | Some jsonOutBuffer \<Rightarrow> (Returns (Some (out st'), None), st')
                | Some (bytes_Buffer b) \<Rightarrow> (Returns (Some b, None), st')
                | Some (io_Reader b rerr closer) \<Rightarrow>
                    (let st'' = (if closer then observe CloseCall st' else st')
                     in case rerr of
                          Some e \<Rightarrow> (Returns (None, Some e), st'')
                        | None \<Rightarrow> (Returns (Some b, None), st'')))))"

section \<open>newHandler and the shutdown-signal listener\<close>

text \<open>
  Modelled from the spec: \<open>enableSIGTERM\<close>, the function \<open>newHandler\<close> calls at line 113, is
  not among the source files. Section 4.2 calls it "the registration of the OS-level
  shutdown-signal listener", and section 5 says that the listener, "upon receiving a
  shutdown signal, synchronously runs all registered callbacks in registration order".
  A process holds the listeners registered so far, each with the callbacks it was given,
  and the callbacks that have run.
\<close>

record 'cb process =
  listeners :: "'cb list list"
  ran :: "'cb list"

definition enableSIGTERM_fn :: "'cb list \<Rightarrow> 'cb process \<Rightarrow> 'cb process" where
  "enableSIGTERM_fn callbacks P = P\<lparr>listeners := listeners P @ [callbacks]\<rparr>"

definition SIGTERM :: "'cb process \<Rightarrow> 'cb process" where
  "SIGTERM P = P\<lparr>ran := ran P @ concat (listeners P)\<rparr>"

text \<open>
  \<open>newHandler\<close>, lines 102 to 117: the defaults, the options applied in order, the listener
  registered if the flag is set, and the closure built by \<open>reflectHandler\<close> stored in the
  embedded \<open>handlerFunc\<close> field.
\<close>

definition newHandler ::
  "('c, 'i, 'o, 'x) packages \<Rightarrow> ('c \<Rightarrow> 'i \<Rightarrow> 'o \<times> 'x error option) option \<Rightarrow>
   ('c, 'i, 'o, 'x, 'cb) Option list \<Rightarrow> 'cb process \<Rightarrow>
   ('c, 'i, 'o, 'x, 'cb) handlerOptions \<times> 'cb process" where
  "newHandler L f options P =
     (let h0 = \<lparr>handlerFunc = None,
                baseContext = context_Background L,
                jsonResponseEscapeHTML = False,
                jsonResponseIndentPrefix = [],
                jsonResponseIndentValue = [],
                enableSIGTERM = False,
                sigtermCallbacks = []\<rparr>;
          h = fold (\<lambda>option h. option h) options h0;
          P' = (if enableSIGTERM h then enableSIGTERM_fn (sigtermCallbacks h) P else P)
      in (h\<lparr>handlerFunc := Some (reflectHandler L f h)\<rparr>, P'))"

text \<open>
  \<open>Invoke\<close> on a \<open>*handlerOptions\<close> is the method of the embedded \<open>handlerFunc\<close>; calling
  a nil function value panics.
\<close>

definition handlerOptions_Invoke ::
  "('c, 'i, 'o, 'x, 'cb) handlerOptions \<Rightarrow> 'c \<Rightarrow> bytes \<Rightarrow> ('c, 'i, 'o) adapter \<Rightarrow>
     (bytes option \<times> 'x error option) outcome \<times> ('c, 'i, 'o) adapter" where
  "handlerOptions_Invoke h ctx payload st =
     (case handlerFunc h of
        None \<Rightarrow> (Panics ''invalid memory address or nil pointer dereference'', st)
      | Some hf \<Rightarrow> Invoke hf ctx payload st)"

section \<open>The registration surface\<close>

text \<open>
  Modelled from the spec: \<open>HandlerFunc\<close>, the constraint on the type parameter \<open>H\<close> of
  \<open>newHandler\<close> and \<open>reflectHandler\<close>, is not among the source files. Spec section 4.1,
  step 4, lists what a user function may be: "\<open>() -> error\<close>, \<open>() -> (Out, error)\<close>,
  \<open>(In) -> error\<close>, \<open>(In) -> (Out, error)\<close>, and the same four with a leading context
  parameter". A function without parameters is given by what it returns.
\<close>

datatype ('c, 'i, 'o, 'x) user_function =
    func_error "'x error option"
  | func_out_error "'o \<times> 'x error option"
  | func_in_error "'i \<Rightarrow> 'x error option"
  | func_in_out_error "'i \<Rightarrow> 'o \<times> 'x error option"
  | func_ctx_error "'c \<Rightarrow> 'x error option"
  | func_ctx_out_error "'c \<Rightarrow> 'o \<times> 'x error option"
  | func_ctx_in_error "'c \<Rightarrow> 'i \<Rightarrow> 'x error option"
  | func_ctx_in_out_error "'c \<Rightarrow> 'i \<Rightarrow> 'o \<times> 'x error option"

text \<open>
  \<open>reflectHandler\<close> uses \<open>f\<close> in one place, line 183: \<open>response, err := f(ctx, *event)\<close>. The
  call passes two arguments, the context and the decoded event, and binds two results. Go
  accepts a call only of a function with as many parameters as the call has arguments and
  as many results as the assignment binds. So of the eight shapes only
  \<open>(context, In) -> (Out, error)\<close> can stand for \<open>f\<close>, and the call gives the function that
  the closure applies; for a function of any other shape the instantiation of
  \<open>reflectHandler\<close> does not compile (\<open>None\<close>).
\<close>

fun call_line_183 ::
  "('c, 'i, 'o, 'x) user_function \<Rightarrow> ('c \<Rightarrow> 'i \<Rightarrow> 'o \<times> 'x error option) option" where
  "call_line_183 (func_ctx_in_out_error f) = Some (\<lambda>ctx event. f ctx event)"
| "call_line_183 _ = None"

text \<open>
  \<open>newHandler\<close> at a user function of the registration surface: the adapter and the process
  it leaves, or \<open>None\<close> when the program that registers the function does not compile.
\<close>

definition newHandler_H ::
  "('c, 'i, 'o, 'x) packages \<Rightarrow> ('c, 'i, 'o, 'x) user_function \<Rightarrow>
   ('c, 'i, 'o, 'x, 'cb) Option list \<Rightarrow> 'cb process \<Rightarrow>
   (('c, 'i, 'o, 'x, 'cb) handlerOptions \<times> 'cb process) option" where
  "newHandler_H L u options P =
     (case call_line_183 u of
        None \<Rightarrow> None
      | Some f \<Rightarrow> Some (newHandler L (Some f) options P))"

section \<open>lambda/entry.go\<close>

text \<open>
  A start function is the name of an environment variable and the loop to hand control
  to; the loop gives \<open>None\<close> when it never returns and the error it returned (nil or not)
  otherwise. \<open>startRuntimeAPILoop\<close> is not among the source files and is a parameter.
\<close>

record ('h, 'x) startFunction =
  env :: string
  f_loop :: "string \<Rightarrow> 'h \<Rightarrow> 'x error option option"

definition runtimeAPIStartFunction ::
  "(string \<Rightarrow> 'h \<Rightarrow> 'x error option option) \<Rightarrow> ('h, 'x) startFunction" where
  "runtimeAPIStartFunction startRuntimeAPILoop =
     \<lparr>env = ''AWS_LAMBDA_RUNTIME_API'', f_loop = startRuntimeAPILoop\<rparr>"

definition startFunctions ::
  "(string \<Rightarrow> 'h \<Rightarrow> 'x error option option) \<Rightarrow> ('h, 'x) startFunction list" where
  "startFunctions startRuntimeAPILoop = [runtimeAPIStartFunction startRuntimeAPILoop]"

text \<open>
  What \<open>start\<close> does is the list of its calls to a loop function and to \<open>logFatalf\<close> (with
  the format and the arguments it passed), and how it ends. \<open>logFatalf\<close> is a variable
  of the package: the hook is a parameter that tells whether it returns to its caller
  (\<open>log.Fatalf\<close>, the default, exits the process and does not).
\<close>

datatype 'x fmt_arg = error_arg "'x error option" | strings_arg "string list"

datatype ('h, 'x) effect =
    StartCall string string 'h
  | LogFatalfCall string "'x fmt_arg list"

datatype ending = Returned | Exited | Running

fun start_range ::
  "(string \<Rightarrow> string) \<Rightarrow> (string \<Rightarrow> 'x fmt_arg list \<Rightarrow> bool) \<Rightarrow> ('h, 'x) startFunction list \<Rightarrow>
   'h \<Rightarrow> string list \<Rightarrow> ('h, 'x) effect list \<times> ending" where
  "start_range Getenv logFatalf [] handler keys =
     ([LogFatalfCall ''expected AWS Lambda environment variables %s are not defined''
         [strings_arg keys]],
      if logFatalf ''expected AWS Lambda environment variables %s are not defined''
           [strings_arg keys]
      then Returned else Exited)"
| "start_range Getenv logFatalf (s # rest) handler keys =
     (let config = Getenv (env s) in
      if config \<noteq> [] then
        (case f_loop s config handler of
           None \<Rightarrow> ([StartCall (env s) config handler], Running)
         | Some err \<Rightarrow>
             if logFatalf ''%v'' [error_arg err] then
               (let (effects, e) = start_range Getenv logFatalf rest handler (keys @ [env s])
                in (StartCall (env s) config handler # LogFatalfCall ''%v'' [error_arg err] # effects, e))
             else ([StartCall (env s) config handler, LogFatalfCall ''%v'' [error_arg err]], Exited))
      else start_range Getenv logFatalf rest handler (keys @ [env s]))"

definition start ::
  "(string \<Rightarrow> string) \<Rightarrow> (string \<Rightarrow> 'x fmt_arg list \<Rightarrow> bool) \<Rightarrow>
   (string \<Rightarrow> 'h \<Rightarrow> 'x error option option) \<Rightarrow> 'h \<Rightarrow> ('h, 'x) effect list \<times> ending" where
  "start Getenv logFatalf startRuntimeAPILoop handler =
     start_range Getenv logFatalf (startFunctions startRuntimeAPILoop) handler []"

section \<open>Reading the calls of an invocation\<close>

text \<open>The calls to the user function and to the encoder among a list of calls, in order.\<close>

fun user_calls :: "('c, 'i, 'o) call list \<Rightarrow> ('c \<times> 'i) list" where
  "user_calls [] = []"
| "user_calls (UserCall c e # cs) = (c, e) # user_calls cs"
| "user_calls (_ # cs) = user_calls cs"

fun encode_calls :: "('c, 'i, 'o) call list \<Rightarrow> (bool \<times> string \<times> string \<times> 'o) list" where
  "encode_calls [] = []"
| "encode_calls (EncodeCall esc prefix indent v # cs) = (esc, prefix, indent, v) # encode_calls cs"
| "encode_calls (_ # cs) = encode_calls cs"

section \<open>The stream decoder of encoding/json\<close>

text \<open>
  The closure decodes with \<open>json.NewDecoder(in).Decode(event)\<close> of Go's standard library,
  which is not part of the repository. For what the decoder reads of a payload it is
  modelled here after the library's \<open>scanner.go\<close> and \<open>stream.go\<close>: \<open>Decode\<close> finds the extent
  of the first JSON value with \<open>readValue\<close>, which runs the scanner's state machine over
  the bytes, and hands exactly those bytes to \<open>unmarshal\<close>. The scanner's state functions
  are the constructors of \<open>step\<close>; its \<open>err\<close> and \<open>bytes\<close> fields (the message and the offset
  of a syntax error) are left out, as nothing in \<open>readValue\<close> reads them.
\<close>

datatype step =
    stBeginValue | stBeginValueOrEmpty | stBeginStringOrEmpty | stBeginString
  | stEndValue | stEndTop
  | stInString | stInStringEsc | stInStringEscU | stInStringEscU1 | stInStringEscU12
  | stInStringEscU123
  | stNeg | st1 | st0 | stDot | stDot0 | stE | stESign | stE0
  | stT | stTr | stTru | stF | stFa | stFal | stFals | stN | stNu | stNul
  | stError

datatype scan =
    scanContinue | scanBeginLiteral | scanBeginObject | scanObjectKey | scanObjectValue
  | scanEndObject | scanBeginArray | scanArrayValue | scanEndArray | scanSkipSpace
  | scanEnd | scanError

datatype parse = parseObjectKey | parseObjectValue | parseArrayValue

record scanner =
  step :: step
  endTop :: bool
  parseState :: "parse list"

definition maxNestingDepth :: nat where
  "maxNestingDepth = 10000"

definition scanner_reset :: scanner where
  "scanner_reset = \<lparr>step = stBeginValue, endTop = False, parseState = []\<rparr>"

definition isSpace :: "char \<Rightarrow> bool" where
  "isSpace c \<longleftrightarrow> c = CHR '' '' \<or> c = CHR 0x09 \<or> c = CHR 0x0D \<or> c = CHR 0x0A"

definition isDigit :: "char \<Rightarrow> bool" where
  "isDigit c \<longleftrightarrow> c \<in> set ''0123456789''"

definition isHex :: "char \<Rightarrow> bool" where
  "isHex c \<longleftrightarrow> c \<in> set ''0123456789abcdefABCDEF''"

text \<open>
  \<open>scanner.error\<close> stops the machine; \<open>pushParseState\<close> and \<open>popParseState\<close> keep the stack
  of open objects and arrays, innermost last.
\<close>

definition scanner_error :: "scanner \<Rightarrow> scan \<times> scanner" where
  "scanner_error s = (scanError, s\<lparr>step := stError\<rparr>)"

definition advance :: "scanner \<Rightarrow> step \<Rightarrow> scan \<times> scanner" where
  "advance s next = (scanContinue, s\<lparr>step := next\<rparr>)"

definition pushParseState :: "scanner \<Rightarrow> parse \<Rightarrow> scan \<Rightarrow> scan \<times> scanner" where
  "pushParseState s newParseState successState =
     (let s' = s\<lparr>parseState := parseState s @ [newParseState]\<rparr>
      in if length (parseState s') \<le> maxNestingDepth then (successState, s')
         else scanner_error s')"

definition popParseState :: "scanner \<Rightarrow> scanner" where
  "popParseState s =
     (let ps = butlast (parseState s)
      in if ps = [] then s\<lparr>parseState := ps, step := stEndTop, endTop := True\<rparr>
         else s\<lparr>parseState := ps, step := stEndValue\<rparr>)"

text \<open>
  The state functions that other state functions call. \<open>stateEndTop\<close> answers \<open>scanEnd\<close>
  whatever the byte: a byte that is not white space after the top-level value is
  complained about on the next call only.
\<close>

definition stateEndTop :: "scanner \<Rightarrow> char \<Rightarrow> scan \<times> scanner" where
  "stateEndTop s c = (if isSpace c then (scanEnd, s) else (scanEnd, snd (scanner_error s)))"

definition stateEndValue :: "scanner \<Rightarrow> char \<Rightarrow> scan \<times> scanner" where
  "stateEndValue s c =
     (if parseState s = [] then stateEndTop (s\<lparr>step := stEndTop, endTop := True\<rparr>) c
      else if isSpace c then (scanSkipSpace, s\<lparr>step := stEndValue\<rparr>)
      else (case last (parseState s) of
              parseObjectKey \<Rightarrow>
                if c = CHR '':'' then
                  (scanObjectKey,
                   s\<lparr>parseState := (parseState s)[length (parseState s) - 1 := parseObjectValue],
                     step := stBeginValue\<rparr>)
                else scanner_error s
            | parseObjectValue \<Rightarrow>
                if c = CHR '','' then
                  (scanObjectValue,
                   s\<lparr>parseState := (parseState s)[length (parseState s) - 1 := parseObjectKey],
                     step := stBeginString\<rparr>)
                else if c = CHR ''}'' then (scanEndObject, popParseState s)
                else scanner_error s
            | parseArrayValue \<Rightarrow>
                if c = CHR '','' then (scanArrayValue, s\<lparr>step := stBeginValue\<rparr>)
                else if c = CHR '']'' then (scanEndArray, popParseState s)
                else scanner_error s))"

definition stateBeginValue :: "scanner \<Rightarrow> char \<Rightarrow> scan \<times> scanner" where
  "stateBeginValue s c =
     (if isSpace c then (scanSkipSpace, s)
      else if c = CHR ''{'' then
        pushParseState (s\<lparr>step := stBeginStringOrEmpty\<rparr>) parseObjectKey scanBeginObject
      else if c = CHR ''['' then
        pushParseState (s\<lparr>step := stBeginValueOrEmpty\<rparr>) parseArrayValue scanBeginArray
      else if c = CHR 0x22 then (scanBeginLiteral, s\<lparr>step := stInString\<rparr>)
      else if c = CHR ''-'' then (scanBeginLiteral, s\<lparr>step := stNeg\<rparr>)
      else if c = CHR ''0'' then (scanBeginLiteral, s\<lparr>step := st0\<rparr>)
      else if c = CHR ''t'' then (scanBeginLiteral, s\<lparr>step := stT\<rparr>)
      else if c = CHR ''f'' then (scanBeginLiteral, s\<lparr>step := stF\<rparr>)
      else if c = CHR ''n'' then (scanBeginLiteral, s\<lparr>step := stN\<rparr>)
      else if c \<in> set ''123456789'' then (scanBeginLiteral, s\<lparr>step := st1\<rparr>)
      else scanner_error s)"

definition stateBeginString :: "scanner \<Rightarrow> char \<Rightarrow> scan \<times> scanner" where
  "stateBeginString s c =
     (if isSpace c then (scanSkipSpace, s)
      else if c = CHR 0x22 then (scanBeginLiteral, s\<lparr>step := stInString\<rparr>)
      else scanner_error s)"

definition state0 :: "scanner \<Rightarrow> char \<Rightarrow> scan \<times> scanner" where
  "state0 s c =
     (if c = CHR ''.'' then advance s stDot
      else if c = CHR ''e'' \<or> c = CHR ''E'' then advance s stE
      else stateEndValue s c)"

definition stateESign :: "scanner \<Rightarrow> char \<Rightarrow> scan \<times> scanner" where
  "stateESign s c = (if isDigit c then advance s stE0 else scanner_error s)"

definition expect :: "scanner \<Rightarrow> char \<Rightarrow> char \<Rightarrow> step \<Rightarrow> scan \<times> scanner" where
  "expect s c wanted next = (if c = wanted then advance s next else scanner_error s)"

text \<open>\<open>s.step(s, c)\<close>: the state function the scanner is in, applied to the byte.\<close>

definition scan_step :: "scanner \<Rightarrow> char \<Rightarrow> scan \<times> scanner" where
  "scan_step s c =
     (case step s of
        stBeginValue \<Rightarrow> stateBeginValue s c
      | stBeginValueOrEmpty \<Rightarrow>
          if isSpace c then (scanSkipSpace, s)
          else if c = CHR '']'' then stateEndValue s c
          else stateBeginValue s c
      | stBeginStringOrEmpty \<Rightarrow>
          if isSpace c then (scanSkipSpace, s)
          else if c = CHR ''}'' then
            stateEndValue
              (s\<lparr>parseState := (parseState s)[length (parseState s) - 1 := parseObjectValue]\<rparr>) c
          else stateBeginString s c
      | stBeginString \<Rightarrow> stateBeginString s c
      | stEndValue \<Rightarrow> stateEndValue s c
      | stEndTop \<Rightarrow> stateEndTop s c
      | stInString \<Rightarrow>
          if c = CHR 0x22 then advance s stEndValue
          else if c = CHR 0x5C then advance s stInStringEsc
          else if (of_char c :: nat) < 0x20 then scanner_error s
          else (scanContinue, s)
      | stInStringEsc \<Rightarrow>
          if c \<in> set ''bfnrt/'' \<or> c = CHR 0x5C \<or> c = CHR 0x22 then advance s stInString
          else if c = CHR ''u'' then advance s stInStringEscU
          else scanner_error s
      | stInStringEscU \<Rightarrow> if isHex c then advance s stInStringEscU1 else scanner_error s
      | stInStringEscU1 \<Rightarrow> if isHex c then advance s stInStringEscU12 else scanner_error s
      | stInStringEscU12 \<Rightarrow> if isHex c then advance s stInStringEscU123 else scanner_error s
      | stInStringEscU123 \<Rightarrow> if isHex c then advance s stInString else scanner_error s
      | stNeg \<Rightarrow>
          if c = CHR ''0'' then advance s st0
          else if c \<in> set ''123456789'' then advance s st1
          else scanner_error s
      | st1 \<Rightarrow> if isDigit c then advance s st1 else state0 s c
      | st0 \<Rightarrow> state0 s c
      | stDot \<Rightarrow> if isDigit c then advance s stDot0 else scanner_error s
      | stDot0 \<Rightarrow>
          if isDigit c then (scanContinue, s)
          else if c = CHR ''e'' \<or> c = CHR ''E'' then advance s stE
          else stateEndValue s c
      | stE \<Rightarrow> if c = CHR ''+'' \<or> c = CHR ''-'' then advance s stESign else stateESign s c
      | stESign \<Rightarrow> stateESign s c
      | stE0 \<Rightarrow> if isDigit c then (scanContinue, s) else stateEndValue s c
      | stT \<Rightarrow> expect s c (CHR ''r'') stTr
      | stTr \<Rightarrow> expect s c (CHR ''u'') stTru
      | stTru \<Rightarrow> expect s c (CHR ''e'') stEndValue
      | stF \<Rightarrow> expect s c (CHR ''a'') stFa
      | stFa \<Rightarrow> expect s c (CHR ''l'') stFal
      | stFal \<Rightarrow> expect s c (CHR ''s'') stFals
      | stFals \<Rightarrow> expect s c (CHR ''e'') stEndValue
      | stN \<Rightarrow> expect s c (CHR ''u'') stNu
      | stNu \<Rightarrow> expect s c (CHR ''l'') stNul
      | stNul \<Rightarrow> expect s c (CHR ''l'') stEndValue
      | stError \<Rightarrow> (scanError, s))"

text \<open>
  \<open>Decoder.readValue\<close> on a decoder that has read nothing yet, over the bytes of the
  payload: the number of bytes of the first value, or the error. \<open>scanEnd\<close> comes one byte
  late, so the value ends before the byte that gave it; after the closing bracket of an
  object or array an invented space byte tells whether the top-level value has ended. At
  the end of the input another invented space byte ends a literal or a number.
\<close>

definition nonSpace :: "bytes \<Rightarrow> bool" where
  "nonSpace b = list_ex (\<lambda>c. \<not> isSpace c) b"

datatype read_error = SyntaxError | ErrUnexpectedEOF | EOF

fun readValue_loop :: "bytes \<Rightarrow> scanner \<Rightarrow> bytes \<Rightarrow> nat \<Rightarrow> read_error + nat" where
  "readValue_loop buf s [] scanp =
     (if fst (scan_step s (CHR '' '')) = scanEnd then Inr scanp
      else if nonSpace buf then Inl ErrUnexpectedEOF
      else Inl EOF)"
| "readValue_loop buf s (c # cs) scanp =
     (let (r, s') = scan_step s c in
      if r = scanEnd then Inr scanp
      else if r = scanEndObject \<or> r = scanEndArray then
        (let (r', s'') = stateEndValue s' (CHR '' '') in
         if r' = scanEnd then Inr (scanp + 1)
         else readValue_loop buf s'' cs (scanp + 1))
      else if r = scanError then Inl SyntaxError
      else readValue_loop buf s' cs (scanp + 1))"

definition readValue :: "bytes \<Rightarrow> read_error + nat" where
  "readValue buf = readValue_loop buf scanner_reset buf 0"

text \<open>
  \<open>Decoder.Decode\<close>: the bytes of the first value go to \<open>unmarshal\<close>, which fills a value of
  the declared input type by reflection and is a parameter; the rest of the stream is not
  looked at.
\<close>

definition Decoder_Decode ::
  "(bytes \<Rightarrow> 'u + 'i) \<Rightarrow> bytes \<Rightarrow> (read_error + 'u) error + 'i" where
  "Decoder_Decode unmarshal payload =
     (case readValue payload of
        Inl e \<Rightarrow> Inl (otherError (Inl e))
      | Inr n \<Rightarrow>
          (case unmarshal (take n payload) of
             Inl u \<Rightarrow> Inl (otherError (Inr u))
           | Inr v \<Rightarrow> Inr v))"

text \<open>
  \<open>unmarshal\<close> for the input type \<open>bool\<close>: white space before the value is skipped, \<open>true\<close> and
  \<open>false\<close> give the value, \<open>null\<close> leaves the zero value, and any other JSON value is a type
  error.
\<close>

definition unmarshal_bool :: "bytes \<Rightarrow> unit + bool" where
  "unmarshal_bool data =
     (let w = dropWhile isSpace data
      in if w = ''true'' then Inr True
         else if w = ''false'' then Inr False
         else if w = ''null'' then Inr False
         else Inl ())"




section \<open>An instance to run the adapter on\<close>

text \<open>
  The examples run the adapter on a small instance of its packages. A context is a
  boolean that tells whether both trace callbacks are registered on it. Inputs are JSON
  booleans, read by the stream decoder above, whose errors are taken as one. Outputs are strings of plain characters: the encoder writes the
  quoted string and a newline, and escapes the characters \<open><\<close>, \<open>>\<close> and \<open>&\<close> only when it
  is told to. The user function answers \<open>true\<close> with a string and \<open>false\<close> with an error.
\<close>

definition example_FromContext :: "bool \<Rightarrow> (bool, bool, string) HandlerTrace" where
  "example_FromContext traced =
     (if traced
      then \<lparr>RequestEvent = Some (\<lambda>_ event. event), ResponseEvent = Some (\<lambda>_ _. ())\<rparr>
      else \<lparr>RequestEvent = None, ResponseEvent = None\<rparr>)"

definition example_Decode :: "bytes \<Rightarrow> unit error + bool" where
  "example_Decode payload =
     (case Decoder_Decode unmarshal_bool payload of
        Inl e \<Rightarrow> Inl (otherError ())
      | Inr event \<Rightarrow> Inr event)"

definition example_escape :: "bool \<Rightarrow> char \<Rightarrow> string" where
  "example_escape escapeHTML c =
     (if escapeHTML \<and> c = CHR ''<'' then CHR 0x5C # ''u003c''
      else if escapeHTML \<and> c = CHR ''>'' then CHR 0x5C # ''u003e''
      else if escapeHTML \<and> c = CHR ''&'' then CHR 0x5C # ''u0026''
      else [c])"

definition example_Encode :: "bool \<Rightarrow> string \<Rightarrow> string \<Rightarrow> string \<Rightarrow> bytes \<times> unit error option" where
  "example_Encode escapeHTML prefix indent v =
     ([CHR 0x22] @ concat (map (example_escape escapeHTML) v) @ [CHR 0x22, CHR 0x0A], None)"

definition example_packages :: "(bool, bool, string, unit) packages" where
  "example_packages =
     \<lparr>context_Background = False,
      handlertrace_FromContext = example_FromContext,
      json_Decode = example_Decode,
      json_Encode = example_Encode\<rparr>"

definition example_handler :: "bool \<Rightarrow> bool \<Rightarrow> string \<times> unit error option" where
  "example_handler ctx event =
     (if event then (''<html>'', None) else ([], Some (errors_New ''refused'')))"

definition example_options :: "string \<Rightarrow> string \<Rightarrow> (bool, bool, string, unit, nat) handlerOptions" where
  "example_options prefix indent =
     \<lparr>handlerFunc = None,
      baseContext = False,
      jsonResponseEscapeHTML = False,
      jsonResponseIndentPrefix = prefix,
      jsonResponseIndentValue = indent,
      enableSIGTERM = False,
      sigtermCallbacks = []\<rparr>"

section \<open>An instance for a handler that returns its input\<close>






section \<open>The steps of the closure\<close>

lemma user_calls_append: "user_calls (xs @ ys) = user_calls xs @ user_calls ys"
  by (induction xs rule: user_calls.induct) simp_all

lemma encode_calls_append: "encode_calls (xs @ ys) = encode_calls xs @ encode_calls ys"
  by (induction xs rule: encode_calls.induct) simp_all

lemma request_trace_out: "request_trace t ctx ev st = (ev', st') \<Longrightarrow> out st' = out st"
  by (auto simp: request_trace_def observe_def split: option.splits)

lemma request_trace_encode_calls:
  "request_trace t ctx ev st = (ev', st') \<Longrightarrow> encode_calls (calls st') = encode_calls (calls st)"
  by (auto simp: request_trace_def observe_def encode_calls_append split: option.splits)

lemma request_trace_user_calls:
  "request_trace t ctx ev st = (ev', st') \<Longrightarrow> user_calls (calls st') = user_calls (calls st)"
  by (auto simp: request_trace_def observe_def user_calls_append split: option.splits)

lemma response_trace_out: "out (response_trace t ctx v st) = out st"
  by (simp add: response_trace_def observe_def split: option.splits)

lemma response_trace_user_calls:
  "user_calls (calls (response_trace t ctx v st)) = user_calls (calls st)"
  by (simp add: response_trace_def observe_def user_calls_append split: option.splits)

lemma response_trace_encode_calls:
  "encode_calls (calls (response_trace t ctx v st)) = encode_calls (calls st)"
  by (simp add: response_trace_def observe_def encode_calls_append split: option.splits)

lemma reflectHandler_decode_error:
  assumes "json_Decode L payload = Inl err"
  shows "reflectHandler L (Some f) h ctx payload st = (Returns (None, Some err), st\<lparr>out := []\<rparr>)"
  using assms by (simp add: reflectHandler_def)

lemma reflectHandler_user_error:
  assumes "json_Decode L payload = Inr event0"
    and "request_trace (handlertrace_FromContext L ctx) ctx event0 (st\<lparr>out := []\<rparr>) = (event, st2)"
    and "f ctx event = (response, Some e)"
  shows "reflectHandler L (Some f) h ctx payload st =
           (Returns (None, Some e), observe (UserCall ctx event) st2)"
  using assms by (simp add: reflectHandler_def)

text \<open>
  When decoding, the user function and the encoder all succeed, the invocation gives what
  the encoder wrote: less its last byte if no indentation is set (a panic if the encoder
  wrote nothing), as it is otherwise.
\<close>

lemma reflectHandler_encoded:
  assumes "json_Decode L payload = Inr event0"
    and "request_trace (handlertrace_FromContext L ctx) ctx event0 (st\<lparr>out := []\<rparr>) = (event, st2)"
    and "f ctx event = (response, None)"
    and "json_Encode L (jsonResponseEscapeHTML h) (jsonResponseIndentPrefix h)
           (jsonResponseIndentValue h) response = (written, None)"
  shows "fst (Invoke (reflectHandler L (Some f) h) ctx payload st) =
      (if jsonResponseIndentValue h = [] \<and> jsonResponseIndentPrefix h = []
       then (if written = [] then Panics ''bytes.Buffer: truncation out of range''
             else Returns (Some (butlast written), None))
       else Returns (Some written, None))"
proof -
  have o2: "out st2 = []"
    using request_trace_out [OF assms(2)] by simp
  have t: "written \<noteq> [] \<Longrightarrow> take (nat (int (length written) - 1)) written = butlast written"
    by (simp add: butlast_conv_take nat_diff_distrib')
  show ?thesis
    using assms o2 t
    by (simp add: reflectHandler_def Invoke_def Let_def observe_def response_trace_out Truncate_def)
qed

text \<open>
  The reader a closure of \<open>reflectHandler\<close> returns is its own buffer, so \<open>Invoke\<close> leaves
  the state as the closure left it.
\<close>

lemma reflectHandler_reader:
  "fst (reflectHandler L (Some f) h ctx payload st) = Returns (Some r, None) \<Longrightarrow> r = jsonOutBuffer"
  by (simp add: reflectHandler_def Let_def split: option.splits prod.splits sum.splits if_splits)

lemma Invoke_state:
  assumes "\<And>r. fst (hf ctx payload st) = Returns (Some r, None) \<Longrightarrow> r = jsonOutBuffer"
  shows "snd (Invoke hf ctx payload st) = snd (hf ctx payload st)"
proof (cases "hf ctx payload st")
  case (Pair res st')
  then show ?thesis
    using assms by (cases res) (auto simp: Invoke_def split: option.splits reader.splits)
qed

lemma Invoke_reflectHandler_state:
  "snd (Invoke (reflectHandler L (Some f) h) ctx payload st) =
     snd (reflectHandler L (Some f) h ctx payload st)"
  by (rule Invoke_state) (rule reflectHandler_reader)

text \<open>Once the payload is decoded, the closure calls the user function once.\<close>

lemma reflectHandler_user_calls:
  assumes "json_Decode L payload = Inr event0"
    and "request_trace (handlertrace_FromContext L ctx) ctx event0 (st\<lparr>out := []\<rparr>) = (event, st2)"
  shows "user_calls (calls (snd (reflectHandler L (Some f) h ctx payload st))) =
           user_calls (calls st) @ [(ctx, event)]"
proof -
  have u2: "user_calls (calls st2) = user_calls (calls st)"
    using request_trace_user_calls [OF assms(2)] by simp
  show ?thesis
    using assms u2
    by (simp add: reflectHandler_def Let_def observe_def user_calls_append response_trace_user_calls
        split: option.splits prod.splits)
qed

text \<open>Once the user function has returned no error, the closure calls the encoder once.\<close>

lemma reflectHandler_encode_calls:
  assumes "json_Decode L payload = Inr event0"
    and "request_trace (handlertrace_FromContext L ctx) ctx event0 (st\<lparr>out := []\<rparr>) = (event, st2)"
    and "f ctx event = (response, None)"
  shows "encode_calls (calls (snd (reflectHandler L (Some f) h ctx payload st))) =
           encode_calls (calls st) @
             [(jsonResponseEscapeHTML h, jsonResponseIndentPrefix h, jsonResponseIndentValue h, response)]"
proof -
  have e2: "encode_calls (calls st2) = encode_calls (calls st)"
    using request_trace_encode_calls [OF assms(2)] by simp
  show ?thesis
    using assms e2
    by (simp add: reflectHandler_def Let_def observe_def encode_calls_append response_trace_encode_calls
        split: option.splits prod.splits)
qed

lemma newHandler_handlerFunc:
  "handlerFunc (fst (newHandler L f options P)) =
     Some (reflectHandler L f (fold (\<lambda>option h. option h) options
       \<lparr>handlerFunc = None, baseContext = context_Background L, jsonResponseEscapeHTML = False,
        jsonResponseIndentPrefix = [], jsonResponseIndentValue = [], enableSIGTERM = False,
        sigtermCallbacks = []\<rparr>))"
  by (simp add: newHandler_def Let_def)

text \<open>
  With the identity as user function and no request trace registered, the invocation
  gives the encoding of the decoded payload, less the final byte if no indentation is set.
\<close>

lemma identity_handler_reencodes:
  assumes "json_Decode L payload = Inr event"
    and "RequestEvent (handlertrace_FromContext L ctx) = None"
    and "json_Encode L (jsonResponseEscapeHTML h) (jsonResponseIndentPrefix h)
           (jsonResponseIndentValue h) event = (written, None)"
  shows "fst (Invoke (reflectHandler L (Some (\<lambda>ctx event. (event, None))) h) ctx payload st) =
      (if jsonResponseIndentValue h = [] \<and> jsonResponseIndentPrefix h = []
       then (if written = [] then Panics ''bytes.Buffer: truncation out of range''
             else Returns (Some (butlast written), None))
       else Returns (Some written, None))"
proof -
  have tr: "request_trace (handlertrace_FromContext L ctx) ctx event (st\<lparr>out := []\<rparr>) =
              (event, st\<lparr>out := []\<rparr>)"
    using assms(2) by (simp add: request_trace_def)
  show ?thesis
    by (rule reflectHandler_encoded [where f = "\<lambda>ctx event. (event, None)",
          OF assms(1) tr _ assms(3)]) simp
qed

section \<open>What the stream decoder reads\<close>






















section \<open>The example instance, evaluated\<close>

lemma example_Decode_true: "json_Decode example_packages ''true'' = Inr True"
  by code_simp

lemma example_Decode_false: "json_Decode example_packages ''false'' = Inr False"
  by code_simp

lemma example_Decode_brace: "json_Decode example_packages ''{'' = Inl (otherError ())"
  by code_simp

lemma example_request_trace:
  "request_trace (handlertrace_FromContext example_packages True) True ev st =
     (ev, observe (RequestEventCall True ev) st)"
  by (simp add: example_packages_def example_FromContext_def request_trace_def)

lemma example_handler_true: "example_handler c True = (''<html>'', None)"
  by (simp add: example_handler_def)

lemma example_handler_false: "example_handler c False = ([], Some (errorString ''refused''))"
  by (simp add: example_handler_def errors_New_def)

lemma example_Encode_plain:
  \<open>json_Encode example_packages False [] [] ''<html>'' = (''"<html>"'' @ [CHR 0x0A], None)\<close>
  by (simp add: example_packages_def example_Encode_def example_escape_def)

lemma example_Encode_options:
  \<open>json_Encode example_packages (jsonResponseEscapeHTML (example_options p i))
      (jsonResponseIndentPrefix (example_options p i)) (jsonResponseIndentValue (example_options p i))
      ''<html>'' = (''"<html>"'' @ [CHR 0x0A], None)\<close>
  by (simp add: example_packages_def example_Encode_def example_escape_def example_options_def)

text \<open>With escaping switched on, the same encoder escapes the angle brackets.\<close>

lemma example_Encode_escaped:
  \<open>json_Encode example_packages True [] [] ''<html>'' =
     ([CHR 0x22, CHR 0x5C] @ ''u003chtml'' @ [CHR 0x5C] @ ''u003e'' @ [CHR 0x22, CHR 0x0A], None)\<close>
  by (simp add: example_packages_def example_Encode_def example_escape_def)

section \<open>The shapes of user function the adapter takes\<close>

text \<open>
  C1, the claim as it stands: every one of the eight shapes is accepted. It fails at the
  shape \<open>() -> error\<close>: a function of no parameters and one result cannot stand for \<open>f\<close> in
  the call of line 183, so registering it gives no adapter.
\<close>

theorem no_argument_shape_not_registered:
  "newHandler_H example_packages (func_error None) []
     \<lparr>listeners = [], ran = ([] :: nat list)\<rparr> = None"
  by (simp add: newHandler_H_def)

lemma newHandler_fields:
  "jsonResponseEscapeHTML (fst (newHandler L f options P)) =
     jsonResponseEscapeHTML (fold (\<lambda>option h. option h) options
       \<lparr>handlerFunc = None, baseContext = context_Background L, jsonResponseEscapeHTML = False,
        jsonResponseIndentPrefix = [], jsonResponseIndentValue = [], enableSIGTERM = False,
        sigtermCallbacks = []\<rparr>) \<and>
   jsonResponseIndentPrefix (fst (newHandler L f options P)) =
     jsonResponseIndentPrefix (fold (\<lambda>option h. option h) options
       \<lparr>handlerFunc = None, baseContext = context_Background L, jsonResponseEscapeHTML = False,
        jsonResponseIndentPrefix = [], jsonResponseIndentValue = [], enableSIGTERM = False,
        sigtermCallbacks = []\<rparr>) \<and>
   jsonResponseIndentValue (fst (newHandler L f options P)) =
     jsonResponseIndentValue (fold (\<lambda>option h. option h) options
       \<lparr>handlerFunc = None, baseContext = context_Background L, jsonResponseEscapeHTML = False,
        jsonResponseIndentPrefix = [], jsonResponseIndentValue = [], enableSIGTERM = False,
        sigtermCallbacks = []\<rparr>)"
  by (simp add: newHandler_def Let_def)

text \<open>
  C1, amended. The registration surface gives an adapter for one shape of user function
  only, \<open>(context, In) -> (Out, error)\<close>, and for a function of that shape it is the adapter
  \<open>newHandler\<close> builds. Whenever the payload decodes, an invocation of that adapter calls the
  user function exactly once, always with both the context of the invocation and the
  decoded event (as the request trace, if one is registered, left it), and goes on with
  what that call returned: its error is the error of the invocation, and otherwise its
  response is what the encoder is given, with the settings of the options.

  The usage examples in the comments of the option constructors (lines 36 to 41, 52 to 57,
  68 to 73 and 87 to 94) pass functions of other shapes to \<open>lambda.StartWithOptions\<close>, which
  is not defined in the source files; none of those functions can stand for \<open>f\<close> at line
  183, and the README gives the single signature as the purpose of the repository.
\<close>

theorem one_shape_registered_and_called_with_both:
  assumes "json_Decode L payload = Inr event0"
    and "request_trace (handlertrace_FromContext L ctx) ctx event0 (st\<lparr>out := []\<rparr>) = (event, st2)"
  shows "(newHandler_H L u options P \<noteq> None \<longleftrightarrow> (\<exists>g. u = func_ctx_in_out_error g)) \<and>
         newHandler_H L (func_ctx_in_out_error f) options P =
           Some (newHandler L (Some f) options P) \<and>
         user_calls (calls (snd (handlerOptions_Invoke (fst (newHandler L (Some f) options P))
                                   ctx payload st))) =
           user_calls (calls st) @ [(ctx, event)] \<and>
         (case snd (f ctx event) of
            Some e \<Rightarrow>
              fst (handlerOptions_Invoke (fst (newHandler L (Some f) options P)) ctx payload st) =
                Returns (None, Some e)
          | None \<Rightarrow>
              encode_calls (calls (snd (handlerOptions_Invoke
                  (fst (newHandler L (Some f) options P)) ctx payload st))) =
                encode_calls (calls st) @
                  [(jsonResponseEscapeHTML (fst (newHandler L (Some f) options P)),
                    jsonResponseIndentPrefix (fst (newHandler L (Some f) options P)),
                    jsonResponseIndentValue (fst (newHandler L (Some f) options P)),
                    fst (f ctx event))])"
proof -
  let ?h = "fold (\<lambda>option h. option h) options
       \<lparr>handlerFunc = None, baseContext = context_Background L, jsonResponseEscapeHTML = False,
        jsonResponseIndentPrefix = [], jsonResponseIndentValue = [], enableSIGTERM = False,
        sigtermCallbacks = ([] :: 'e list)\<rparr>"
  have inv: "handlerOptions_Invoke (fst (newHandler L (Some f) options P)) ctx payload st =
               Invoke (reflectHandler L (Some f) ?h) ctx payload st"
    by (simp add: handlerOptions_Invoke_def newHandler_handlerFunc)
  have shapes: "newHandler_H L u options P \<noteq> None \<longleftrightarrow> (\<exists>g. u = func_ctx_in_out_error g)"
    by (cases u) (simp_all add: newHandler_H_def)
  have full: "newHandler_H L (func_ctx_in_out_error f) options P =
           Some (newHandler L (Some f) options P)"
    by (simp add: newHandler_H_def)
  have called: "user_calls (calls (snd (Invoke (reflectHandler L (Some f) ?h) ctx payload st))) =
           user_calls (calls st) @ [(ctx, event)]"
    by (simp add: Invoke_reflectHandler_state reflectHandler_user_calls [OF assms])
  have used: "(case snd (f ctx event) of
            Some e \<Rightarrow>
              fst (handlerOptions_Invoke (fst (newHandler L (Some f) options P)) ctx payload st) =
                Returns (None, Some e)
          | None \<Rightarrow>
              encode_calls (calls (snd (handlerOptions_Invoke
                  (fst (newHandler L (Some f) options P)) ctx payload st))) =
                encode_calls (calls st) @
                  [(jsonResponseEscapeHTML (fst (newHandler L (Some f) options P)),
                    jsonResponseIndentPrefix (fst (newHandler L (Some f) options P)),
                    jsonResponseIndentValue (fst (newHandler L (Some f) options P)),
                    fst (f ctx event))])"
  proof (cases "snd (f ctx event)")
    case None
    then have r: "f ctx event = (fst (f ctx event), None)"
      by (simp add: prod_eq_iff)
    show ?thesis
      using None reflectHandler_encode_calls [where f = f and h = ?h, OF assms r]
      by (simp add: inv newHandler_fields Invoke_reflectHandler_state)
  next
    case (Some e)
    then have r: "f ctx event = (fst (f ctx event), Some e)"
      by (simp add: prod_eq_iff)
    show ?thesis
      using Some reflectHandler_user_error [where f = f and h = ?h, OF assms r]
      by (simp add: inv Invoke_def)
  qed
  show ?thesis
    using shapes full called used by (simp only: inv)
qed

theorem one_shape_registered_and_called_with_both_witness:
  "newHandler_H example_packages (func_ctx_in_out_error example_handler) []
       \<lparr>listeners = [], ran = ([] :: nat list)\<rparr> \<noteq> None \<and>
   user_calls (calls (snd (handlerOptions_Invoke
       (fst (newHandler example_packages (Some example_handler) []
               \<lparr>listeners = [], ran = ([] :: nat list)\<rparr>))
       True ''true'' \<lparr>out = [], calls = []\<rparr>))) = [(True, True)] \<and>
   encode_calls (calls (snd (handlerOptions_Invoke
       (fst (newHandler example_packages (Some example_handler) []
               \<lparr>listeners = [], ran = ([] :: nat list)\<rparr>))
       True ''true'' \<lparr>out = [], calls = []\<rparr>))) = [(False, [], [], ''<html>'')]"
  using one_shape_registered_and_called_with_both [where f = example_handler
      and u = "func_ctx_in_out_error example_handler" and options = "[]"
      and P = "\<lparr>listeners = [], ran = ([] :: nat list)\<rparr>",
      OF example_Decode_true example_request_trace, of "\<lparr>out = [], calls = []\<rparr>"]
  by (simp add: example_handler_true newHandler_def)

section \<open>The nil handler\<close>

text \<open>
  C2. For a nil user function, \<open>newHandler\<close> still builds an adapter: its \<open>handlerFunc\<close> is
  the error handler holding the one error made by \<open>errors.New("handler is nil")\<close>. Every
  invocation of it, whatever the options, the context, the payload and the state of the
  adapter, returns no bytes and that same error, and changes nothing.
\<close>

theorem nil_handler_invocation_fails:
  "handlerFunc (fst (newHandler L None options P)) =
     Some (errorHandler (errors_New ''handler is nil'')) \<and>
   handlerOptions_Invoke (fst (newHandler L None options P)) ctx payload st =
     (Returns (None, Some (errorString ''handler is nil'')), st)"
  by (simp add: newHandler_handlerFunc handlerOptions_Invoke_def Invoke_def reflectHandler_def
        errorHandler_def errors_New_def)

section \<open>The trailing newline\<close>

text \<open>
  C3. Take a successful invocation: the payload decodes, the user function returns no
  error, and the encoder writes \<open>body\<close> followed by the newline it appends. If the
  indentation prefix and the indent string are both empty, the invocation returns \<open>body\<close>:
  the newline, and nothing else, is stripped. If either is set, it returns what the
  encoder wrote, newline included.
\<close>

theorem trailing_newline_stripped_unless_indented:
  assumes "json_Decode L payload = Inr event0"
    and "request_trace (handlertrace_FromContext L ctx) ctx event0 (st\<lparr>out := []\<rparr>) = (event, st2)"
    and "f ctx event = (response, None)"
    and "json_Encode L (jsonResponseEscapeHTML h) (jsonResponseIndentPrefix h)
           (jsonResponseIndentValue h) response = (body @ [CHR 0x0A], None)"
  shows "fst (Invoke (reflectHandler L (Some f) h) ctx payload st) =
      Returns (Some (if jsonResponseIndentPrefix h = [] \<and> jsonResponseIndentValue h = []
                     then body else body @ [CHR 0x0A]), None)"
  using reflectHandler_encoded [where f = f, OF assms] by auto

theorem trailing_newline_stripped_unless_indented_witness:
  \<open>fst (Invoke (reflectHandler example_packages (Some example_handler) (example_options [] []))
          True ''true'' \<lparr>out = ''old'', calls = []\<rparr>) = Returns (Some ''"<html>"'', None) \<and>
   fst (Invoke (reflectHandler example_packages (Some example_handler) (example_options [] '' ''))
          True ''true'' \<lparr>out = ''old'', calls = []\<rparr>) =
     Returns (Some (''"<html>"'' @ [CHR 0x0A]), None)\<close>
  using trailing_newline_stripped_unless_indented [where f = example_handler
      and h = "example_options [] []",
      OF example_Decode_true example_request_trace example_handler_true example_Encode_options,
      of "\<lparr>out = ''old'', calls = []\<rparr>"]
    trailing_newline_stripped_unless_indented [where f = example_handler
      and h = "example_options [] '' ''",
      OF example_Decode_true example_request_trace example_handler_true example_Encode_options,
      of "\<lparr>out = ''old'', calls = []\<rparr>"]
  by (simp add: example_options_def)

section \<open>Errors of the user function\<close>

text \<open>
  C4. When the user function returns a non-nil error (whatever response comes with it),
  the invocation returns no bytes and that very error; the state it leaves is the one
  after the request trace and the call of the user function, in which the buffer is
  empty, as the reset left it, and the encoder has not been called.
\<close>

theorem user_error_returned_before_encoding:
  assumes "json_Decode L payload = Inr event0"
    and "request_trace (handlertrace_FromContext L ctx) ctx event0 (st\<lparr>out := []\<rparr>) = (event, st2)"
    and "f ctx event = (response, Some e)"
  shows "Invoke (reflectHandler L (Some f) h) ctx payload st =
           (Returns (None, Some e), observe (UserCall ctx event) st2) \<and>
         out (observe (UserCall ctx event) st2) = [] \<and>
         encode_calls (calls (observe (UserCall ctx event) st2)) = encode_calls (calls st)"
proof -
  have o2: "out st2 = []"
    using request_trace_out [OF assms(2)] by simp
  have e2: "encode_calls (calls st2) = encode_calls (calls st)"
    using request_trace_encode_calls [OF assms(2)] by simp
  show ?thesis
    using reflectHandler_user_error [where f = f and h = h, OF assms] o2 e2
    by (simp add: Invoke_def observe_def encode_calls_append)
qed

theorem user_error_returned_before_encoding_witness:
  "Invoke (reflectHandler example_packages (Some example_handler) (example_options [] []))
      True ''false'' \<lparr>out = ''old'', calls = []\<rparr> =
     (Returns (None, Some (errorString ''refused'')),
      \<lparr>out = [], calls = [RequestEventCall True False, UserCall True False]\<rparr>)"
  using user_error_returned_before_encoding [where f = example_handler
      and h = "example_options [] []",
      OF example_Decode_false example_request_trace example_handler_false,
      of "\<lparr>out = ''old'', calls = []\<rparr>"]
  by (simp add: observe_def)

section \<open>Errors of the decoder\<close>

text \<open>
  C5. When the payload does not decode, the invocation returns no bytes and the decoder's
  error; it has made no call (no trace callback, no user function, no encoder) and the
  buffer is empty.
\<close>

theorem decode_error_ends_invocation:
  assumes "json_Decode L payload = Inl err"
  shows "fst (Invoke (reflectHandler L (Some f) h) ctx payload st) = Returns (None, Some err) \<and>
         calls (snd (Invoke (reflectHandler L (Some f) h) ctx payload st)) = calls st \<and>
         out (snd (Invoke (reflectHandler L (Some f) h) ctx payload st)) = []"
  by (simp add: Invoke_def reflectHandler_decode_error [OF assms])

theorem decode_error_ends_invocation_witness:
  "json_Decode example_packages ''{'' = Inl (otherError ()) \<and>
   fst (Invoke (reflectHandler example_packages (Some example_handler) (example_options [] []))
          True ''{'' \<lparr>out = ''old'', calls = [UserCall False True]\<rparr>) =
     Returns (None, Some (otherError ())) \<and>
   calls (snd (Invoke (reflectHandler example_packages (Some example_handler) (example_options [] []))
          True ''{'' \<lparr>out = ''old'', calls = [UserCall False True]\<rparr>)) = [UserCall False True] \<and>
   out (snd (Invoke (reflectHandler example_packages (Some example_handler) (example_options [] []))
          True ''{'' \<lparr>out = ''old'', calls = [UserCall False True]\<rparr>)) = []"
  using decode_error_ends_invocation [OF example_Decode_brace, of example_handler
      "example_options [] []" True "\<lparr>out = ''old'', calls = [UserCall False True]\<rparr>"]
    example_Decode_brace
  by simp

section \<open>The identity handler\<close>








section \<open>Shutdown callbacks\<close>

text \<open>
  C7. Applying \<open>WithEnableSIGTERM\<close> twice appends both callback lists, in the order of
  application, to the ones already there, and the option sets the flag. \<open>newHandler\<close>
  registers the listener exactly once, with the accumulated callbacks, if the flag is set
  after the options, and not at all otherwise (so never when no option is given). With
  the callback lists \<open>[a]\<close> and \<open>[b]\<close> the adapter holds \<open>[a, b]\<close>, one listener is
  registered, and when the signal fires \<open>a\<close> runs, then \<open>b\<close>, and nothing else.
\<close>

theorem shutdown_callbacks_accumulate:
  "sigtermCallbacks (WithEnableSIGTERM ds (WithEnableSIGTERM cs h)) = sigtermCallbacks h @ cs @ ds \<and>
   enableSIGTERM (WithEnableSIGTERM cs h) \<and>
   listeners (snd (newHandler L f options P)) =
     listeners P @ (if enableSIGTERM (fst (newHandler L f options P))
                    then [sigtermCallbacks (fst (newHandler L f options P))] else []) \<and>
   listeners (snd (newHandler L f [] P)) = listeners P \<and>
   sigtermCallbacks (fst (newHandler L f [WithEnableSIGTERM [a], WithEnableSIGTERM [b]] P)) = [a, b] \<and>
   enableSIGTERM (fst (newHandler L f [WithEnableSIGTERM [a], WithEnableSIGTERM [b]] P)) \<and>
   listeners (snd (newHandler L f [WithEnableSIGTERM [a], WithEnableSIGTERM [b]]
                     \<lparr>listeners = [], ran = []\<rparr>)) = [[a, b]] \<and>
   ran (SIGTERM (snd (newHandler L f [WithEnableSIGTERM [a], WithEnableSIGTERM [b]]
                        \<lparr>listeners = [], ran = []\<rparr>))) = [a, b]"
  by (simp add: WithEnableSIGTERM_def newHandler_def Let_def enableSIGTERM_fn_def SIGTERM_def)

section \<open>HTML escaping is off by default\<close>

text \<open>
  C8. Take an adapter built with no option, and a successful invocation whose user
  function returns the string \<open><html>\<close>. The encoder is asked once, with escaping off and
  no indentation; if what it writes for these settings is the quoted string with its
  angle brackets as they are, and a newline, then the invocation returns exactly the
  quoted string, without the newline.
\<close>

theorem html_string_unescaped_by_default:
  assumes "json_Decode L payload = Inr event0"
    and "request_trace (handlertrace_FromContext L ctx) ctx event0 (st\<lparr>out := []\<rparr>) = (event, st2)"
    and "f ctx event = (''<html>'', None)"
    and \<open>json_Encode L False [] [] ''<html>'' = (''"<html>"'' @ [CHR 0x0A], None)\<close>
  shows \<open>fst (handlerOptions_Invoke (fst (newHandler L (Some f) [] P)) ctx payload st) =
           Returns (Some ''"<html>"'', None) \<and>
         encode_calls (calls (snd (handlerOptions_Invoke (fst (newHandler L (Some f) [] P))
                                     ctx payload st))) =
           encode_calls (calls st) @ [(False, [], [], ''<html>'')]\<close>
proof -
  let ?h = "\<lparr>handlerFunc = None, baseContext = context_Background L, jsonResponseEscapeHTML = False,
        jsonResponseIndentPrefix = [], jsonResponseIndentValue = [], enableSIGTERM = False,
        sigtermCallbacks = ([] :: 'e list)\<rparr>"
  have enc: \<open>json_Encode L (jsonResponseEscapeHTML ?h) (jsonResponseIndentPrefix ?h)
               (jsonResponseIndentValue ?h) ''<html>'' = (''"<html>"'' @ [CHR 0x0A], None)\<close>
    using assms(4) by simp
  have returned: \<open>fst (Invoke (reflectHandler L (Some f) ?h) ctx payload st) =
                 Returns (Some ''"<html>"'', None)\<close>
    using reflectHandler_encoded [where f = f, OF assms(1) assms(2) assms(3) enc] by simp
  have asked: \<open>encode_calls (calls (snd (Invoke (reflectHandler L (Some f) ?h) ctx payload st))) =
                 encode_calls (calls st) @ [(False, [], [], ''<html>'')]\<close>
    using reflectHandler_encode_calls [where f = f and h = ?h, OF assms(1) assms(2) assms(3)]
    by (simp add: Invoke_reflectHandler_state)
  show ?thesis
    using returned asked by (simp add: handlerOptions_Invoke_def newHandler_handlerFunc)
qed

theorem html_string_unescaped_by_default_witness:
  \<open>fst (handlerOptions_Invoke
          (fst (newHandler example_packages (Some example_handler) []
                  \<lparr>listeners = [], ran = ([] :: nat list)\<rparr>))
          True ''true'' \<lparr>out = [], calls = []\<rparr>) = Returns (Some ''"<html>"'', None)\<close>
  using html_string_unescaped_by_default [where f = example_handler
      and P = "\<lparr>listeners = [], ran = ([] :: nat list)\<rparr>",
      OF example_Decode_true example_request_trace example_handler_true example_Encode_plain,
      of "\<lparr>out = [], calls = []\<rparr>"]
  by simp

section \<open>Starting without the environment\<close>

text \<open>
  What \<open>start\<close> does over any list of start functions none of whose variables is set: it
  calls no loop, and calls \<open>logFatalf\<close> once, with the names of all the variables.
\<close>

lemma start_range_no_environment:
  assumes "\<forall>s \<in> set sfs. Getenv (env s) = []"
  shows "start_range Getenv logFatalf sfs handler keys =
     ([LogFatalfCall ''expected AWS Lambda environment variables %s are not defined''
         [strings_arg (keys @ map env sfs)]],
      if logFatalf ''expected AWS Lambda environment variables %s are not defined''
           [strings_arg (keys @ map env sfs)]
      then Returned else Exited)"
  using assms by (induction sfs arbitrary: keys) simp_all

text \<open>
  C9. When no variable of \<open>startFunctions\<close> is set to a non-empty value, \<open>start\<close> makes one
  call and no other: to \<open>logFatalf\<close>, with the format that says the expected variables
  are not defined and, as its argument, the names of all the variables it looked up,
  which here is \<open>AWS_LAMBDA_RUNTIME_API\<close> alone. No loop function is called. It ends as
  the hook decides: the process exits, or \<open>start\<close> returns.
\<close>

theorem start_without_environment_is_fatal:
  assumes "\<forall>s \<in> set (startFunctions loop). Getenv (env s) = []"
  shows "start Getenv logFatalf loop handler =
     ([LogFatalfCall ''expected AWS Lambda environment variables %s are not defined''
         [strings_arg (map env (startFunctions loop))]],
      if logFatalf ''expected AWS Lambda environment variables %s are not defined''
           [strings_arg (map env (startFunctions loop))]
      then Returned else Exited) \<and>
     map env (startFunctions loop) = [''AWS_LAMBDA_RUNTIME_API'']"
  using start_range_no_environment [OF assms, of logFatalf handler "[]"]
  by (simp add: start_def startFunctions_def runtimeAPIStartFunction_def)

theorem start_without_environment_is_fatal_witness:
  "start (\<lambda>name. []) (\<lambda>format args. False) (\<lambda>config handler. Some (None :: unit error option)) () =
     ([LogFatalfCall ''expected AWS Lambda environment variables %s are not defined''
         [strings_arg [''AWS_LAMBDA_RUNTIME_API'']]], Exited)"
  using start_without_environment_is_fatal [of "\<lambda>config handler. Some (None :: unit error option)"
      "\<lambda>name. []" "\<lambda>format args. False" "()"]
  by (simp add: startFunctions_def runtimeAPIStartFunction_def)

section \<open>Bytes after the first value\<close>










end
